theory Spec2Isabelle
  imports Complex_Main "HOL-Library.Word"
begin

section \<open>The segmenter driver (main.go)\<close>

text \<open>
  The driver parses the command line, validates it, builds the uploaders and the manifest
  generator, opens the input and feeds every read to the generator until the input ends.
  The packages \<open>manifestgenerator\<close>, \<open>hls\<close>, \<open>mediachunk\<close>, \<open>httpuploader\<close> and
  \<open>s3uploader\<close> are used by the driver and declared elsewhere; what the driver needs of
  them is a parameter of the model. Go's \<open>int\<close> is modelled by \<open>int\<close>: the driver compares
  and passes integers and never computes with them. A \<open>float64\<close> is carried unchanged
  and is the type parameter \<open>'f\<close>.
\<close>

subsection \<open>Command-line flags (lines 26 to 56)\<close>

record 'f flags =
  verbose :: bool
  baseOutPath :: string
  chunkBaseFilename :: string
  chunkListFilename :: string
  fileNumberLength :: int
  targetSegmentDurS :: 'f
  liveWindowSize :: int
  lhlsAdvancedChunks :: int
  manifestTypeInt :: int
  autoPID :: bool
  videoPID :: int
  audioPID :: int
  chunkInitType :: int
  mediaDestinationType :: int
  manifestDestinationType :: int
  httpScheme :: string
  httpHost :: string
  logPath :: string
  httpMaxRetries :: int
  initialHTTPRetryDelay :: int
  httpsInsecure :: bool
  inputType :: int
  localPort :: int
  awsID :: string
  awsSecret :: string
  awsRegion :: string
  s3Bucket :: string
  s3UploadTimeOut :: int
  s3IsPublicRead :: bool

text \<open>
  Modelled from the spec: the enumeration constants of \<open>manifestgenerator\<close>, \<open>hls\<close> and
  \<open>mediachunk\<close> are declared outside the driver. Their values are the ones the help texts
  of \<open>-initType\<close>, \<open>-manifestType\<close>, \<open>-mediaDestinationType\<close> and
  \<open>-manifestDestinationType\<close> give (section 6 of the spec: none / init-segment / per-chunk;
  VOD / live-event / live-window; none / local file / ...). The enumeration types are taken
  to be Go's \<open>int\<close>, so that the conversions of lines 66, 71, 72, 103 and 107 change no value.
\<close>

definition ChunkNoIni :: int where "ChunkNoIni = 0"
definition ChunkInit :: int where "ChunkInit = 1"
definition ChunkInitStart :: int where "ChunkInitStart = 2"
definition LiveWindow :: int where "LiveWindow = 2"
definition ChunkOutputModeFile :: int where "ChunkOutputModeFile = 1"
definition HlsOutputModeFile :: int where "HlsOutputModeFile = 1"

text \<open>The default of every flag; the default target duration \<open>4.0\<close> is the argument.\<close>

definition default_flags :: "'f \<Rightarrow> 'f flags" where
  "default_flags four =
     \<lparr> verbose = False,
       baseOutPath = ''./results'',
       chunkBaseFilename = ''chunk_'',
       chunkListFilename = ''chunklist.m3u8'',
       fileNumberLength = 5,
       targetSegmentDurS = four,
       liveWindowSize = 3,
       lhlsAdvancedChunks = 0,
       manifestTypeInt = LiveWindow,
       autoPID = True,
       videoPID = - 1,
       audioPID = - 1,
       chunkInitType = ChunkInitStart,
       mediaDestinationType = 1,
       manifestDestinationType = 1,
       httpScheme = ''http'',
       httpHost = ''localhost:9094'',
       logPath = [],
       httpMaxRetries = 40,
       initialHTTPRetryDelay = 5,
       httpsInsecure = False,
       inputType = 1,
       localPort = 2002,
       awsID = [],
       awsSecret = [],
       awsRegion = [],
       s3Bucket = [],
       s3UploadTimeOut = 10000,
       s3IsPublicRead = False \<rparr>"

subsection \<open>Uploaders (lines 79 to 93, 161 to 173)\<close>

record HTTPUploader =
  http_insecure :: bool
  http_scheme :: string
  http_host :: string
  http_maxRetries :: int
  http_initialRetryDelay :: int

record AWSLocalCreds =
  Valid :: bool
  AWSId :: string
  AWSSecret :: string

record S3Uploader =
  s3_bucket :: string
  s3_region :: string
  s3_uploadTimeOut :: int
  s3_isPublicRead :: bool
  s3_creds :: AWSLocalCreds

definition isHTTPOut :: "'f flags \<Rightarrow> bool" where
  "isHTTPOut fl =
     (if mediaDestinationType fl = 2 \<or> mediaDestinationType fl = 3 \<or> manifestDestinationType fl = 2
      then True else False)"

definition isS3Out :: "'f flags \<Rightarrow> bool" where
  "isS3Out fl =
     (if mediaDestinationType fl = 4 \<or> manifestDestinationType fl = 3 then True else False)"

definition httpuploader_New :: "'f flags \<Rightarrow> HTTPUploader" where
  "httpuploader_New fl =
     \<lparr> http_insecure = httpsInsecure fl,
       http_scheme = httpScheme fl,
       http_host = httpHost fl,
       http_maxRetries = httpMaxRetries fl,
       http_initialRetryDelay = initialHTTPRetryDelay fl \<rparr>"

text \<open>The credentials start as Go's zero value and are filled only when both flags are set.\<close>

definition awsCreds :: "'f flags \<Rightarrow> AWSLocalCreds" where
  "awsCreds fl =
     (if awsID fl \<noteq> [] \<and> awsSecret fl \<noteq> []
      then \<lparr> Valid = True, AWSId = awsID fl, AWSSecret = awsSecret fl \<rparr>
      else \<lparr> Valid = False, AWSId = [], AWSSecret = [] \<rparr>)"

definition s3uploader_New :: "'f flags \<Rightarrow> S3Uploader" where
  "s3uploader_New fl =
     \<lparr> s3_bucket = s3Bucket fl,
       s3_region = awsRegion fl,
       s3_uploadTimeOut = s3UploadTimeOut fl,
       s3_isPublicRead = s3IsPublicRead fl,
       s3_creds = awsCreds fl \<rparr>"

text \<open>The two uploader pointers after line 93; \<open>None\<close> is Go's \<open>nil\<close>.\<close>

definition uploaders :: "'f flags \<Rightarrow> HTTPUploader option \<times> S3Uploader option" where
  "uploaders fl =
     (if isHTTPOut fl then (Some (httpuploader_New fl), None)
      else if isS3Out fl then (None, Some (s3uploader_New fl))
      else (None, None))"

subsection \<open>The manifest generator as the driver sees it (lines 95 to 111)\<close>

text \<open>
  Modelled from the spec: the signature of \<open>manifestgenerator.New\<close> is declared outside
  the driver. The record below holds the sixteen arguments of the call after the logger,
  in the order of the call, each field named after the expression passed; the two integers
  that follow the auto-PID flag are the video and the audio PID (spec 4.2: the resolver
  \<open>accepts operator-supplied PIDs\<close>; section 6: \<open>auto PID detection (bool) + explicit
  video/audio PID\<close>), and the integer after the manifest type is the live-window size.
\<close>

record 'f New_args =
  new_chunkOutputType :: int
  new_hlsOutputType :: int
  new_baseOutPath :: string
  new_chunkBaseFilename :: string
  new_chunkListFilename :: string
  new_fileNumberLength :: int
  new_targetSegmentDurS :: 'f
  new_chunkInitType :: int
  new_autoPID :: bool
  new_videoPID :: int
  new_audioPID :: int
  new_manifestType :: int
  new_liveWindowSize :: int
  new_lhlsAdvancedChunks :: int
  new_httpUploader :: "HTTPUploader option"
  new_s3Uploader :: "S3Uploader option"

definition New_call :: "'f flags \<Rightarrow> 'f New_args" where
  "New_call fl =
     \<lparr> new_chunkOutputType = mediaDestinationType fl,
       new_hlsOutputType = manifestDestinationType fl,
       new_baseOutPath = baseOutPath fl,
       new_chunkBaseFilename = chunkBaseFilename fl,
       new_chunkListFilename = chunkListFilename fl,
       new_fileNumberLength = fileNumberLength fl,
       new_targetSegmentDurS = targetSegmentDurS fl,
       new_chunkInitType = chunkInitType fl,
       new_autoPID = autoPID fl,
       new_videoPID = - 1,
       new_audioPID = - 1,
       new_manifestType = manifestTypeInt fl,
       new_liveWindowSize = liveWindowSize fl,
       new_lhlsAdvancedChunks = lhlsAdvancedChunks fl,
       new_httpUploader = fst (uploaders fl),
       new_s3Uploader = snd (uploaders fl) \<rparr>"

text \<open>
  Modelled from the spec: the type \<open>ManifestGenerator\<close> and its methods are declared
  outside the driver. The driver constructs one generator, calls \<open>AddData\<close> on it with each
  slice read and \<open>Close\<close> on it at the end of the input, and uses no result of either call;
  the three operations are parameters, over any state \<open>'mg\<close>, and are taken to return.
\<close>

record ('f, 'mg) manifestgenerator =
  mg_New :: "'f New_args \<Rightarrow> 'mg"
  mg_AddData :: "'mg \<Rightarrow> 8 word list \<Rightarrow> 'mg"
  mg_Close :: "'mg \<Rightarrow> 'mg"

text \<open>A generator that does nothing but record the calls made on it, in order.\<close>

datatype 'f mg_call = CallNew "'f New_args" | CallAddData "8 word list" | CallClose

definition recorder :: "('f, 'f mg_call list) manifestgenerator" where
  "recorder =
     \<lparr> mg_New = (\<lambda>a. [CallNew a]),
       mg_AddData = (\<lambda>calls bs. calls @ [CallAddData bs]),
       mg_Close = (\<lambda>calls. calls @ [CallClose]) \<rparr>"

subsection \<open>The environment of a run\<close>

text \<open>
  One call of \<open>r.Read\<close> returns the slice \<open>buf[:n]\<close> and an error: \<open>None\<close> is \<open>nil\<close>,
  \<open>Some EOF\<close> is \<open>io.EOF\<close>, \<open>Some ReadFailure\<close> any other error. An input is the list of
  the results its reads return, in order; an input whose list is used up before the loop
  ends delivers nothing more, and the loop waits on it for ever.
\<close>

datatype read_error = EOF | ReadFailure

type_synonym read_result = "8 word list \<times> read_error option"

text \<open>
  \<open>net.Listen\<close> returns a listener or, with an error, \<open>nil\<close>; the listener's first \<open>Accept\<close>
  returns a connection or, with an error, \<open>nil\<close>.
\<close>

datatype listener = Listener "read_result list option"

record env =
  os_OpenFile :: "string \<Rightarrow> bool"
  os_Stdin :: "read_result list"
  net_Listen :: "string \<Rightarrow> listener option"

subsection \<open>How a run ends\<close>

datatype exit_status = OsExit int | GoPanic

record 'mg outcome =
  status :: exit_status
  generator :: "'mg option"
  reads_done :: nat

subsection \<open>Opening the input (lines 113 to 129)\<close>

fun digits10 :: "nat \<Rightarrow> string" where
  "digits10 n =
     (if n < 10 then [''0123456789'' ! n]
      else digits10 (n div 10) @ [''0123456789'' ! (n mod 10)])"

declare digits10.simps [simp del]

definition Itoa :: "int \<Rightarrow> string" where
  "Itoa i = (if i < 0 then CHR ''-'' # digits10 (nat (- i)) else digits10 (nat i))"

text \<open>
  The reader is built over the accepted connection, which is \<open>nil\<close> when \<open>Accept\<close> failed
  (\<open>NilReader\<close>). When \<open>net.Listen\<close> failed the listener is \<open>nil\<close> and the call of its
  \<open>Accept\<close> method panics, before any reader is built.
\<close>

datatype reader = Reader "read_result list" | NilReader

datatype go_panic = NilDereference

definition open_reader :: "'f flags \<Rightarrow> env \<Rightarrow> go_panic + reader" where
  "open_reader fl e =
     (if inputType fl = 2 then
        (case net_Listen e (CHR '':'' # Itoa (localPort fl)) of
           None \<Rightarrow> Inl NilDereference
         | Some (Listener None) \<Rightarrow> Inr NilReader
         | Some (Listener (Some rs)) \<Rightarrow> Inr (Reader rs))
      else Inr (Reader (os_Stdin e)))"

subsection \<open>The ingest loop (lines 134 to 154)\<close>

text \<open>The test of line 136, \<open>n == 0 && err == io.EOF\<close>, and the test of line 145.\<close>

definition detected_EOF :: "read_result \<Rightarrow> bool" where
  "detected_EOF r = (length (fst r) = 0 \<and> snd r = Some EOF)"

definition read_failed :: "read_result \<Rightarrow> bool" where
  "read_failed r = (snd r \<noteq> None \<and> snd r \<noteq> Some EOF)"

text \<open>
  \<open>k\<close> counts the reads done so far. \<open>None\<close> is a loop that has not ended when the input
  delivers nothing more. After the \<open>break\<close> of line 142 the driver reaches \<open>os.Exit(0)\<close>
  on line 158. \<open>log.Fatal\<close> ends the process with code 1, as the \<open>os.Exit(1)\<close> after it
  would.
\<close>

fun ingest_loop ::
  "('f, 'mg) manifestgenerator \<Rightarrow> 'mg \<Rightarrow> nat \<Rightarrow> read_result list \<Rightarrow> 'mg outcome option" where
  "ingest_loop P mg k [] = None"
| "ingest_loop P mg k (r # rs) =
     (if detected_EOF r then
        Some \<lparr> status = OsExit 0, generator = Some (mg_Close P mg), reads_done = Suc k \<rparr>
      else if read_failed r then
        Some \<lparr> status = OsExit 1, generator = Some mg, reads_done = Suc k \<rparr>
      else ingest_loop P (mg_AddData P mg (fst r)) (Suc k) rs)"

subsection \<open>The driver (lines 58 to 159)\<close>

text \<open>
  \<open>configureLogger\<close> ends the process when the log file cannot be opened. The lines the
  driver logs and the directory it creates have no part in how a run ends and are left out
  of the outcome.
\<close>

definition configureLogger_exits :: "'f flags \<Rightarrow> env \<Rightarrow> bool" where
  "configureLogger_exits fl e = (logPath fl \<noteq> [] \<and> \<not> os_OpenFile e (logPath fl))"

text \<open>The check of lines 66 to 69.\<close>

definition startup_rejects :: "'f flags \<Rightarrow> bool" where
  "startup_rejects fl = (autoPID fl = False \<and> chunkInitType fl \<noteq> ChunkNoIni)"

text \<open>Lines 75 to 77: whether the output directory is created.\<close>

definition makes_output_dir :: "'f flags \<Rightarrow> bool" where
  "makes_output_dir fl =
     (mediaDestinationType fl = ChunkOutputModeFile \<or> manifestDestinationType fl = HlsOutputModeFile)"

definition main :: "('f, 'mg) manifestgenerator \<Rightarrow> 'f flags \<Rightarrow> env \<Rightarrow> 'mg outcome option" where
  "main P fl e =
     (if configureLogger_exits fl e then
        Some \<lparr> status = OsExit (- 1), generator = None, reads_done = 0 \<rparr>
      else if startup_rejects fl then
        Some \<lparr> status = OsExit 1, generator = None, reads_done = 0 \<rparr>
      else
        (case open_reader fl e of
           Inl p \<Rightarrow> Some \<lparr> status = GoPanic, generator = Some (mg_New P (New_call fl)), reads_done = 0 \<rparr>
         | Inr NilReader \<Rightarrow>
             Some \<lparr> status = GoPanic, generator = Some (mg_New P (New_call fl)), reads_done = 0 \<rparr>
         | Inr (Reader rs) \<Rightarrow> ingest_loop P (mg_New P (New_call fl)) 0 rs))"

subsection \<open>Reads, generators and environments used below\<close>

text \<open>A read that reaches line 153: neither test of the loop fires and the slice is passed on.\<close>

definition is_processed :: "read_result \<Rightarrow> bool" where
  "is_processed r = (\<not> detected_EOF r \<and> \<not> read_failed r)"

text \<open>
  The reader of lines 125 and 128 is a \<open>bufio.Reader\<close>, whose buffer of 4096 bytes is
  larger than the slice of \<open>readBufferSize\<close> bytes it is read through on line 135. A call of
  its \<open>Read\<close> hands out bytes of the buffer with a \<open>nil\<close> error, or no byte together with
  the error the input gave: bytes never come with a failure. The predicate says so of one
  read; it admits bytes that come with end-of-stream too, which the loop passes on.
\<close>

definition readBufferSize :: nat where
  "readBufferSize = 128"

definition bufio_Read :: "read_result \<Rightarrow> bool" where
  "bufio_Read r = (length (fst r) \<le> readBufferSize \<and> (fst r = [] \<or> \<not> read_failed r))"

text \<open>
  A generator whose every delivery fails: its state counts the deliveries lost, one for each
  call of \<open>AddData\<close> and of \<open>Close\<close>.
\<close>

definition lossy :: "('f, nat) manifestgenerator" where
  "lossy = \<lparr> mg_New = (\<lambda>a. 0), mg_AddData = (\<lambda>lost bs. Suc lost), mg_Close = (\<lambda>lost. Suc lost) \<rparr>"

text \<open>
  An environment with the given standard input where no port can be listened on, and one
  where exactly the address \<open>addr\<close> gives the listener \<open>lst\<close>.
\<close>

definition stdin_env :: "read_result list \<Rightarrow> env" where
  "stdin_env rs = \<lparr> os_OpenFile = (\<lambda>p. True), os_Stdin = rs, net_Listen = (\<lambda>a. None) \<rparr>"

definition tcp_env :: "string \<Rightarrow> listener \<Rightarrow> env" where
  "tcp_env addr lst =
     \<lparr> os_OpenFile = (\<lambda>p. True), os_Stdin = [],
       net_Listen = (\<lambda>a. if a = addr then Some lst else None) \<rparr>"

section \<open>Properties of the ingest loop\<close>

lemma ingest_loop_append:
  "list_all is_processed pre \<Longrightarrow>
   ingest_loop P mg k (pre @ rs) =
   ingest_loop P (foldl (mg_AddData P) mg (map fst pre)) (k + length pre) rs"
  by (induction pre arbitrary: mg k) (simp_all add: is_processed_def)

lemma ingest_loop_stop:
  assumes "list_all is_processed pre"
  shows "ingest_loop P mg k (pre @ r # post) =
     (if detected_EOF r then
        Some \<lparr> status = OsExit 0,
               generator = Some (mg_Close P (foldl (mg_AddData P) mg (map fst pre))),
               reads_done = Suc (k + length pre) \<rparr>
      else if read_failed r then
        Some \<lparr> status = OsExit 1,
               generator = Some (foldl (mg_AddData P) mg (map fst pre)),
               reads_done = Suc (k + length pre) \<rparr>
      else ingest_loop P (foldl (mg_AddData P) mg (map fst (pre @ [r]))) (Suc (k + length pre)) post)"
  by (simp add: ingest_loop_append [OF assms])

text \<open>A loop that ends has met a read that is not passed on, after reads that all were.\<close>

lemma ingest_loop_SomeD:
  "ingest_loop P mg k rs = Some out \<Longrightarrow>
   \<exists>pre r post. rs = pre @ r # post \<and> list_all is_processed pre \<and> \<not> is_processed r"
proof (induction rs arbitrary: mg k)
  case Nil
  then show ?case by simp
next
  case (Cons r rs)
  show ?case
  proof (cases "is_processed r")
    case False
    then have "r # rs = [] @ r # rs \<and> list_all is_processed [] \<and> \<not> is_processed r" by simp
    then show ?thesis by blast
  next
    case True
    with Cons.prems have "ingest_loop P (mg_AddData P mg (fst r)) (Suc k) rs = Some out"
      by (simp add: is_processed_def)
    from Cons.IH [OF this] obtain pre x post where
      "rs = pre @ x # post" "list_all is_processed pre" "\<not> is_processed x"
      by blast
    with True have "r # rs = (r # pre) @ x # post \<and> list_all is_processed (r # pre) \<and> \<not> is_processed x"
      by simp
    then show ?thesis by blast
  qed
qed

lemma status_ingest_loop:
  "map_option status (ingest_loop P mg k rs) = map_option status (ingest_loop P' mg' k' rs)"
  by (induction rs arbitrary: mg mg' k k') simp_all

lemma read_failed_not_EOF: "read_failed r \<Longrightarrow> \<not> detected_EOF r"
  by (simp add: read_failed_def detected_EOF_def)

lemma is_processed_iff:
  "is_processed r = (snd r = None \<or> (snd r = Some EOF \<and> fst r \<noteq> []))"
  by (cases "snd r") (auto simp: is_processed_def detected_EOF_def read_failed_def)

lemma foldl_recorder:
  "foldl (mg_AddData recorder) calls bss = calls @ map CallAddData bss"
  by (induction bss arbitrary: calls) (simp_all add: recorder_def)

lemma recorder_Close: "mg_Close recorder calls = calls @ [CallClose]"
  by (simp add: recorder_def)

lemma count_Close_AddData: "count_list (map (CallAddData \<circ> f) xs) CallClose = 0"
  by (induction xs) simp_all

lemma Itoa_2002: "Itoa 2002 = ''2002''"
  by code_simp

lemma main_reads:
  "\<not> configureLogger_exits fl e \<Longrightarrow> \<not> startup_rejects fl \<Longrightarrow> open_reader fl e = Inr (Reader rs) \<Longrightarrow>
   main P fl e = ingest_loop P (mg_New P (New_call fl)) 0 rs"
  by (simp add: main_def)

lemma recorder_New: "mg_New recorder a = [CallNew a]"
  by (simp add: recorder_def)

lemma stdin_env_runs:
  "\<not> configureLogger_exits (default_flags four) (stdin_env rs) \<and>
   \<not> startup_rejects (default_flags four) \<and>
   open_reader (default_flags four) (stdin_env rs) = Inr (Reader rs)"
  by (simp add: configureLogger_exits_def startup_rejects_def open_reader_def default_flags_def stdin_env_def)

section \<open>Startup\<close>

text \<open>
  Claim C1: with auto PID detection off and the init-data mode \<open>no init data\<close> the process
  exits non-zero before any input is read, and no other combination is rejected. The
  driver does the opposite, against its own message on line 67 (\<open>Manual PID mode and Chunk
  No ini data are not compatible\<close>): with manual PIDs and no init data it builds the
  generator, reads the input and exits 0 at its end; with manual PIDs and an init segment
  it exits 1 with nothing read.
\<close>

theorem manual_pid_no_init_data_is_accepted:
  "main recorder ((default_flags (4::real))\<lparr>autoPID := False, chunkInitType := ChunkNoIni\<rparr>)
       (stdin_env [([], Some EOF)])
     = Some \<lparr> status = OsExit 0,
              generator = Some [CallNew (New_call ((default_flags 4)\<lparr>autoPID := False, chunkInitType := ChunkNoIni\<rparr>)), CallClose],
              reads_done = 1 \<rparr>
   \<and> main recorder ((default_flags (4::real))\<lparr>autoPID := False, chunkInitType := ChunkInit\<rparr>)
       (stdin_env [([], Some EOF)])
     = Some \<lparr> status = OsExit 1, generator = None, reads_done = 0 \<rparr>"
  by (simp add: main_def configureLogger_exits_def startup_rejects_def open_reader_def default_flags_def
      stdin_env_def detected_EOF_def recorder_def ChunkNoIni_def ChunkInit_def)

text \<open>
  Claim C2: in manual PID mode the generator is constructed with the configured \<open>-vpid\<close> and
  \<open>-apid\<close>. The driver passes the constant \<open>-1\<close> twice: with \<open>-apids=false -initType=0
  -vpid=256 -apid=257\<close> the generator is constructed with the very arguments it gets
  without \<open>-vpid\<close> and \<open>-apid\<close>, and both PIDs are \<open>-1\<close>.
\<close>

theorem configured_pids_are_not_passed:
  "map_option generator (main recorder
       ((default_flags (4::real))\<lparr>autoPID := False, chunkInitType := ChunkNoIni, videoPID := 256, audioPID := 257\<rparr>)
       (stdin_env [([], Some EOF)]))
     = Some (Some [CallNew (New_call ((default_flags 4)\<lparr>autoPID := False, chunkInitType := ChunkNoIni\<rparr>)), CallClose])
   \<and> new_videoPID (New_call ((default_flags (4::real))\<lparr>autoPID := False, chunkInitType := ChunkNoIni, videoPID := 256, audioPID := 257\<rparr>)) = - 1
   \<and> new_audioPID (New_call ((default_flags (4::real))\<lparr>autoPID := False, chunkInitType := ChunkNoIni, videoPID := 256, audioPID := 257\<rparr>)) = - 1"
  by (simp add: main_def configureLogger_exits_def startup_rejects_def open_reader_def default_flags_def
      stdin_env_def detected_EOF_def recorder_def ChunkNoIni_def New_call_def uploaders_def
      isHTTPOut_def isS3Out_def)

section \<open>The end of the input\<close>

text \<open>
  Claim C3, as the spec states it: after a read error other than end-of-stream the pipeline
  is closed before the process exits non-zero. It fails: after one slice and then a failed
  read the generator has seen its construction and one \<open>AddData\<close>, and no \<open>Close\<close>.
\<close>

theorem read_error_without_close_counterexample:
  "ingest_loop recorder [CallNew (New_call (default_flags (4::real)))] 0
       [([1, 2], None), ([], Some ReadFailure)]
     = Some \<lparr> status = OsExit 1,
              generator = Some [CallNew (New_call (default_flags 4)), CallAddData [1, 2]],
              reads_done = 2 \<rparr>"
  by (simp add: detected_EOF_def read_failed_def recorder_def)

text \<open>
  Claim C3, amended: when a read returns an error other than end-of-stream, after reads that
  were all passed on, the process exits with code 1 at once. The calls made on the
  generator are its earlier ones followed by one \<open>AddData\<close> for each earlier read: no
  \<open>Close\<close> is called, and the slice returned with the error is not passed on. So it is
  for the loop from any state of the generator, and for a whole run of the driver.
\<close>

theorem read_error_exits_1_without_close:
  assumes "list_all is_processed pre" and "read_failed r"
  shows "ingest_loop recorder calls k (pre @ r # post)
           = Some \<lparr> status = OsExit 1,
                    generator = Some (calls @ map CallAddData (map fst pre)),
                    reads_done = Suc (k + length pre) \<rparr> \<and>
         (\<not> configureLogger_exits fl e \<and> \<not> startup_rejects fl \<and>
          open_reader fl e = Inr (Reader (pre @ r # post)) \<longrightarrow>
            main recorder fl e
              = Some \<lparr> status = OsExit 1,
                       generator = Some (CallNew (New_call fl) # map CallAddData (map fst pre)),
                       reads_done = Suc (length pre) \<rparr>)"
proof -
  have loop: "ingest_loop recorder c j (pre @ r # post)
           = Some \<lparr> status = OsExit 1,
                    generator = Some (c @ map CallAddData (map fst pre)),
                    reads_done = Suc (j + length pre) \<rparr>" for c j
    using assms(2) by (simp add: ingest_loop_stop [OF assms(1)] read_failed_not_EOF foldl_recorder)
  show ?thesis
    by (simp add: loop main_reads recorder_New)
qed

theorem read_error_exits_1_without_close_witness:
  "list_all is_processed [([1, 2], None)] \<and> read_failed ([3], Some ReadFailure) \<and>
   ingest_loop recorder [CallNew (New_call (default_flags (4::real)))] 0
       ([([1, 2], None)] @ ([3], Some ReadFailure) # [([], Some EOF)])
     = Some \<lparr> status = OsExit 1,
              generator = Some [CallNew (New_call (default_flags 4)), CallAddData [1, 2]],
              reads_done = 2 \<rparr> \<and>
   main recorder (default_flags (4::real)) (stdin_env ([([1, 2], None)] @ ([3], Some ReadFailure) # [([], Some EOF)]))
     = Some \<lparr> status = OsExit 1,
              generator = Some [CallNew (New_call (default_flags 4)), CallAddData [1, 2]],
              reads_done = 2 \<rparr>"
proof -
  have a: "list_all is_processed [([1, 2], None) :: read_result]"
    by (simp add: is_processed_def detected_EOF_def read_failed_def)
  have b: "read_failed ([3], Some ReadFailure)"
    by (simp add: read_failed_def)
  show ?thesis
    using a b stdin_env_runs [of "4::real" "[([1, 2], None)] @ ([3], Some ReadFailure) # [([], Some EOF)]"]
      read_error_exits_1_without_close [OF a b, of "[CallNew (New_call (default_flags (4::real)))]" 0 "[([], Some EOF)]"
        "default_flags (4::real)" "stdin_env ([([1, 2], None)] @ ([3], Some ReadFailure) # [([], Some EOF)])"]
    by simp
qed

text \<open>
  Claim C4: when the input reaches end-of-stream (a read returns zero bytes with the
  end-of-stream error, after reads that were all passed on), the loop ends, \<open>Close\<close> is
  called exactly once, as the last call on the generator, and the process exits with
  code 0. So it is for the loop from any state of the generator, and for a whole run of
  the driver, whose calls are the construction, one \<open>AddData\<close> for each read and one
  \<open>Close\<close>.
\<close>

theorem end_of_stream_closes_once_and_exits_0:
  assumes "list_all is_processed pre" and "detected_EOF r"
  shows "(\<exists>calls'. ingest_loop recorder calls k (pre @ r # post)
           = Some \<lparr> status = OsExit 0, generator = Some calls', reads_done = Suc (k + length pre) \<rparr>
         \<and> calls' = calls @ map CallAddData (map fst pre) @ [CallClose]
         \<and> count_list calls' CallClose = Suc (count_list calls CallClose)) \<and>
         (\<not> configureLogger_exits fl e \<and> \<not> startup_rejects fl \<and>
          open_reader fl e = Inr (Reader (pre @ r # post)) \<longrightarrow>
            main recorder fl e
              = Some \<lparr> status = OsExit 0,
                       generator = Some (CallNew (New_call fl) # map CallAddData (map fst pre) @ [CallClose]),
                       reads_done = Suc (length pre) \<rparr> \<and>
            count_list (CallNew (New_call fl) # map CallAddData (map fst pre) @ [CallClose]) CallClose = 1)"
proof -
  have loop: "ingest_loop recorder c j (pre @ r # post)
           = Some \<lparr> status = OsExit 0,
                    generator = Some (c @ map CallAddData (map fst pre) @ [CallClose]),
                    reads_done = Suc (j + length pre) \<rparr>" for c j
    using assms(2) by (simp add: ingest_loop_stop [OF assms(1)] foldl_recorder recorder_Close)
  show ?thesis
    by (simp add: loop main_reads recorder_New count_Close_AddData)
qed

theorem end_of_stream_closes_once_and_exits_0_witness:
  "list_all is_processed [([1, 2], None), ([3], Some EOF)] \<and> detected_EOF ([], Some EOF) \<and>
   main recorder (default_flags (4::real)) (stdin_env ([([1, 2], None), ([3], Some EOF)] @ ([], Some EOF) # []))
     = Some \<lparr> status = OsExit 0,
              generator = Some [CallNew (New_call (default_flags 4)), CallAddData [1, 2], CallAddData [3], CallClose],
              reads_done = 3 \<rparr> \<and>
   count_list [CallNew (New_call (default_flags (4::real))), CallAddData [1, 2], CallAddData [3], CallClose] CallClose = 1"
proof -
  let ?pre = "[([1, 2], None), ([3], Some EOF)] :: read_result list"
  let ?e = "stdin_env (?pre @ ([], Some EOF) # [])"
  have a: "list_all is_processed ?pre"
    by (simp add: is_processed_def detected_EOF_def read_failed_def)
  have b: "detected_EOF ([], Some EOF)"
    by (simp add: detected_EOF_def)
  have c: "\<not> configureLogger_exits (default_flags (4::real)) ?e \<and>
     \<not> startup_rejects (default_flags (4::real)) \<and>
     open_reader (default_flags (4::real)) ?e = Inr (Reader (?pre @ ([], Some EOF) # []))"
    by (rule stdin_env_runs)
  from end_of_stream_closes_once_and_exits_0 [OF a b, of "[]" 0 "[]" "default_flags (4::real)" ?e] c
  have "main recorder (default_flags (4::real)) ?e
              = Some \<lparr> status = OsExit 0,
                       generator = Some (CallNew (New_call (default_flags 4)) # map CallAddData (map fst ?pre) @ [CallClose]),
                       reads_done = Suc (length ?pre) \<rparr> \<and>
        count_list (CallNew (New_call (default_flags (4::real))) # map CallAddData (map fst ?pre) @ [CallClose]) CallClose = 1"
    by blast
  with a b show ?thesis
    by (simp add: numeral_3_eq_3)
qed

text \<open>
  Claim C5: what the generator does with the data, a failed delivery included, never stops
  the loop. The exit status of a run is the same for any two generators, whatever their
  states; a run that reaches end-of-stream exits with code 0 for every generator; and a
  loop that ends has ended at a read that is the end of the stream or a read error.
\<close>

theorem deliveries_do_not_stop_the_loop:
  fixes P :: "('f, 'a) manifestgenerator" and P' :: "('f, 'b) manifestgenerator"
  shows "map_option status (ingest_loop P mg k rs) = map_option status (ingest_loop P' mg' k' rs) \<and>
    (list_all is_processed pre \<and> detected_EOF r \<longrightarrow>
       map_option status (ingest_loop P mg k (pre @ r # post)) = Some (OsExit 0)) \<and>
    (ingest_loop P mg k rs = Some out \<longrightarrow>
       (\<exists>pre r post. rs = pre @ r # post \<and> list_all is_processed pre \<and>
          (detected_EOF r \<or> read_failed r)))"
proof (intro conjI impI)
  show "map_option status (ingest_loop P mg k rs) = map_option status (ingest_loop P' mg' k' rs)"
    by (rule status_ingest_loop)
next
  assume "list_all is_processed pre \<and> detected_EOF r"
  then show "map_option status (ingest_loop P mg k (pre @ r # post)) = Some (OsExit 0)"
    by (simp add: ingest_loop_stop)
next
  assume "ingest_loop P mg k rs = Some out"
  from ingest_loop_SomeD [OF this] obtain pre r post where
    "rs = pre @ r # post" "list_all is_processed pre" "\<not> is_processed r"
    by blast
  then have "rs = pre @ r # post \<and> list_all is_processed pre \<and> (detected_EOF r \<or> read_failed r)"
    by (auto simp: is_processed_def)
  then show "\<exists>pre r post. rs = pre @ r # post \<and> list_all is_processed pre \<and>
          (detected_EOF r \<or> read_failed r)"
    by blast
qed

theorem deliveries_do_not_stop_the_loop_witness:
  "list_all is_processed [([1, 2], None), ([3], None)] \<and> detected_EOF ([], Some EOF) \<and>
   ingest_loop (lossy :: (real, nat) manifestgenerator) 0 0 [([1, 2], None), ([3], None), ([], Some EOF)]
     = Some \<lparr> status = OsExit 0, generator = Some 3, reads_done = 3 \<rparr> \<and>
   map_option status (ingest_loop (lossy :: (real, nat) manifestgenerator) 0 0
       [([1, 2], None), ([3], None), ([], Some EOF)])
     = map_option status (ingest_loop (recorder :: (real, real mg_call list) manifestgenerator) [] 0
       [([1, 2], None), ([3], None), ([], Some EOF)]) \<and>
   map_option status (ingest_loop (lossy :: (real, nat) manifestgenerator) 0 0
       ([([1, 2], None), ([3], None)] @ ([], Some EOF) # [])) = Some (OsExit 0) \<and>
   (\<exists>pre r post. [([1, 2], None), ([3], None), ([], Some EOF)] = pre @ r # post \<and>
       list_all is_processed pre \<and> (detected_EOF r \<or> read_failed r))"
proof -
  let ?rs = "[([1, 2], None), ([3], None), ([], Some EOF)] :: read_result list"
  let ?out = "\<lparr> status = OsExit 0, generator = Some (3::nat), reads_done = 3 \<rparr>"
  have a: "list_all is_processed [([1, 2], None), ([3], None) :: read_result]"
    by (simp add: is_processed_def detected_EOF_def read_failed_def)
  have b: "detected_EOF ([], Some EOF)"
    by (simp add: detected_EOF_def)
  have c: "ingest_loop (lossy :: (real, nat) manifestgenerator) 0 0 ?rs = Some ?out"
    by (simp add: detected_EOF_def read_failed_def lossy_def)
  note t = deliveries_do_not_stop_the_loop
      [of "lossy :: (real, nat) manifestgenerator" 0 0 ?rs
          "recorder :: (real, real mg_call list) manifestgenerator" "[]" 0
          "[([1, 2], None), ([3], None)]" "([], Some EOF)" "[]" ?out]
  from t have t1: "map_option status (ingest_loop (lossy :: (real, nat) manifestgenerator) 0 0 ?rs)
     = map_option status (ingest_loop (recorder :: (real, real mg_call list) manifestgenerator) [] 0 ?rs)"
    by (rule conjunct1)
  from t a b have t2: "map_option status (ingest_loop (lossy :: (real, nat) manifestgenerator) 0 0
       ([([1, 2], None), ([3], None)] @ ([], Some EOF) # [])) = Some (OsExit 0)"
    by blast
  from t c have t3: "\<exists>pre r post. ?rs = pre @ r # post \<and>
       list_all is_processed pre \<and> (detected_EOF r \<or> read_failed r)"
    by blast
  from a b c t1 t2 t3 show ?thesis by blast
qed

section \<open>Construction of the generator\<close>

text \<open>
  Claim C6, as the spec states it: the options \<open>max chunks in manifest\<close> and \<open>live window
  size\<close> set one quantity, so the live-window size of the pipeline equals the value of
  either. It fails at the defaults: the live-window size passed to the generator is 3 and
  the value of \<open>-maxChunks\<close> is 5.
\<close>

theorem max_chunks_is_not_the_window_counterexample:
  "new_liveWindowSize (New_call (default_flags (4::real))) \<noteq> fileNumberLength (default_flags (4::real))"
  by (simp add: New_call_def default_flags_def)

text \<open>
  Claim C6, amended: the two options are separate. The live-window size passed to the
  generator is the value of \<open>-liveWindowSize\<close>, the value of \<open>-maxChunks\<close> is passed as an
  argument of its own (\<open>fileNumberLength\<close>), and changing either option leaves the other
  argument as it was.
\<close>

theorem window_size_and_max_chunks_are_separate:
  "new_liveWindowSize (New_call fl) = liveWindowSize fl \<and>
   new_fileNumberLength (New_call fl) = fileNumberLength fl \<and>
   new_liveWindowSize (New_call (fl\<lparr>fileNumberLength := n\<rparr>)) = new_liveWindowSize (New_call fl) \<and>
   new_fileNumberLength (New_call (fl\<lparr>liveWindowSize := w\<rparr>)) = new_fileNumberLength (New_call fl)"
  by (simp add: New_call_def)

text \<open>
  Claim C8: at most one uploader is constructed and HTTP comes first. Whenever a destination
  selects an HTTP kind (media 2 or 3, manifest 2) the generator gets the HTTP uploader and
  a \<open>nil\<close> S3 uploader, also when the other destination selects S3.
\<close>

theorem at_most_one_uploader_http_first:
  "\<not> (new_httpUploader (New_call fl) \<noteq> None \<and> new_s3Uploader (New_call fl) \<noteq> None) \<and>
   (mediaDestinationType fl = 2 \<or> mediaDestinationType fl = 3 \<or> manifestDestinationType fl = 2 \<longrightarrow>
      new_httpUploader (New_call fl) = Some (httpuploader_New fl) \<and> new_s3Uploader (New_call fl) = None)"
  by (simp add: New_call_def uploaders_def isHTTPOut_def)

theorem at_most_one_uploader_http_first_witness:
  "isS3Out ((default_flags (4::real))\<lparr>mediaDestinationType := 2, manifestDestinationType := 3\<rparr>) \<and>
   new_httpUploader (New_call ((default_flags (4::real))\<lparr>mediaDestinationType := 2, manifestDestinationType := 3\<rparr>))
     = Some \<lparr> http_insecure = False, http_scheme = ''http'', http_host = ''localhost:9094'',
              http_maxRetries = 40, http_initialRetryDelay = 5 \<rparr> \<and>
   new_s3Uploader (New_call ((default_flags (4::real))\<lparr>mediaDestinationType := 2, manifestDestinationType := 3\<rparr>)) = None"
  using at_most_one_uploader_http_first
    [of "(default_flags (4::real))\<lparr>mediaDestinationType := 2, manifestDestinationType := 3\<rparr>"]
  by (simp add: isS3Out_def httpuploader_New_def default_flags_def)

section \<open>The input\<close>

text \<open>
  Claim C7: the input kind selects where the bytes come from. When the configuration passes
  the startup checks, with input kind 2 and a connection accepted on the listener of the
  configured port the loop runs on the reads of that connection; with any other input kind
  it runs on the reads of standard input.
\<close>

theorem input_kind_selects_the_reader:
  assumes "\<not> configureLogger_exits fl e" and "\<not> startup_rejects fl"
  shows "(inputType fl = 2 \<and> net_Listen e (CHR '':'' # Itoa (localPort fl)) = Some (Listener (Some rs)) \<longrightarrow>
            main P fl e = ingest_loop P (mg_New P (New_call fl)) 0 rs) \<and>
         (inputType fl \<noteq> 2 \<longrightarrow>
            main P fl e = ingest_loop P (mg_New P (New_call fl)) 0 (os_Stdin e))"
  using assms by (simp add: main_def open_reader_def)

theorem input_kind_selects_the_reader_witness:
  "main recorder ((default_flags (4::real))\<lparr>inputType := 2\<rparr>)
      \<lparr> os_OpenFile = (\<lambda>p. True), os_Stdin = [([9], None), ([], Some EOF)],
        net_Listen = (\<lambda>a. if a = '':2002'' then Some (Listener (Some [([1, 2], None), ([], Some EOF)])) else None) \<rparr>
    = Some \<lparr> status = OsExit 0,
             generator = Some [CallNew (New_call ((default_flags 4)\<lparr>inputType := 2\<rparr>)), CallAddData [1, 2], CallClose],
             reads_done = 2 \<rparr> \<and>
   main recorder (default_flags (4::real))
      \<lparr> os_OpenFile = (\<lambda>p. True), os_Stdin = [([9], None), ([], Some EOF)],
        net_Listen = (\<lambda>a. if a = '':2002'' then Some (Listener (Some [([1, 2], None), ([], Some EOF)])) else None) \<rparr>
    = Some \<lparr> status = OsExit 0,
             generator = Some [CallNew (New_call (default_flags 4)), CallAddData [9], CallClose],
             reads_done = 2 \<rparr>"
proof -
  let ?e = "\<lparr> os_OpenFile = (\<lambda>p. True), os_Stdin = [([9], None), ([], Some EOF)],
        net_Listen = (\<lambda>a. if a = '':2002'' then Some (Listener (Some [([1, 2], None), ([], Some EOF)])) else None) \<rparr>"
  let ?tcp = "(default_flags (4::real))\<lparr>inputType := 2\<rparr>"
  have l1: "\<not> configureLogger_exits ?tcp ?e" and l2: "\<not> configureLogger_exits (default_flags (4::real)) ?e"
    by (simp_all add: configureLogger_exits_def default_flags_def)
  have s1: "\<not> startup_rejects ?tcp" and s2: "\<not> startup_rejects (default_flags (4::real))"
    by (simp_all add: startup_rejects_def default_flags_def)
  have p: "localPort ?tcp = 2002" "inputType ?tcp = 2" "inputType (default_flags (4::real)) \<noteq> 2"
    by (simp_all add: default_flags_def)
  have "main recorder ?tcp ?e
          = ingest_loop recorder (mg_New recorder (New_call ?tcp)) 0 [([1, 2], None), ([], Some EOF)]"
    using input_kind_selects_the_reader [OF l1 s1, of "[([1, 2], None), ([], Some EOF)]" recorder] p
    by (simp add: Itoa_2002)
  moreover have "main recorder (default_flags (4::real)) ?e
          = ingest_loop recorder (mg_New recorder (New_call (default_flags 4))) 0 [([9], None), ([], Some EOF)]"
    using input_kind_selects_the_reader [OF l2 s2, of "[]" recorder] p by simp
  ultimately show ?thesis
    by (simp add: detected_EOF_def read_failed_def recorder_def)
qed

text \<open>
  Claim C10, as the spec states it: the errors of \<open>net.Listen\<close> and \<open>Accept\<close> are dropped, so
  where listening fails the reader is built from a \<open>nil\<close> connection. It fails: where
  listening fails the listener is \<open>nil\<close>, the call of \<open>Accept\<close> on it panics and no reader
  is built.
\<close>

theorem listen_failure_builds_no_reader_counterexample:
  "open_reader ((default_flags (4::real))\<lparr>inputType := 2\<rparr>) (stdin_env [([], Some EOF)]) = Inl NilDereference \<and>
   main recorder ((default_flags (4::real))\<lparr>inputType := 2\<rparr>) (stdin_env [([], Some EOF)])
     = Some \<lparr> status = GoPanic,
              generator = Some [CallNew (New_call ((default_flags 4)\<lparr>inputType := 2\<rparr>))],
              reads_done = 0 \<rparr>"
  by (simp add: main_def open_reader_def configureLogger_exits_def startup_rejects_def default_flags_def
      stdin_env_def recorder_def)

text \<open>
  Claim C10, amended: with input kind 2 the errors of \<open>net.Listen\<close> and \<open>Accept\<close> are
  dropped, and neither failure takes the exit of the read-error path. Where listening on
  the configured port fails, no reader is built and the process panics at \<open>Accept\<close>; where
  listening succeeds and accepting fails, the reader is built from a \<open>nil\<close> connection and
  the process panics at its first read. In both cases the generator has been constructed
  and nothing has been read.
\<close>

theorem listen_and_accept_errors_end_in_panic:
  assumes "inputType fl = 2" and "\<not> configureLogger_exits fl e" and "\<not> startup_rejects fl"
  shows "(net_Listen e (CHR '':'' # Itoa (localPort fl)) = None \<longrightarrow>
            open_reader fl e = Inl NilDereference \<and>
            main P fl e = Some \<lparr> status = GoPanic, generator = Some (mg_New P (New_call fl)), reads_done = 0 \<rparr>) \<and>
         (net_Listen e (CHR '':'' # Itoa (localPort fl)) = Some (Listener None) \<longrightarrow>
            open_reader fl e = Inr NilReader \<and>
            main P fl e = Some \<lparr> status = GoPanic, generator = Some (mg_New P (New_call fl)), reads_done = 0 \<rparr>)"
  using assms by (simp add: main_def open_reader_def)

theorem listen_and_accept_errors_end_in_panic_witness:
  "open_reader ((default_flags (4::real))\<lparr>inputType := 2\<rparr>) (tcp_env '':2002'' (Listener None)) = Inr NilReader \<and>
   main recorder ((default_flags (4::real))\<lparr>inputType := 2\<rparr>) (tcp_env '':2002'' (Listener None))
     = Some \<lparr> status = GoPanic,
              generator = Some [CallNew (New_call ((default_flags 4)\<lparr>inputType := 2\<rparr>))],
              reads_done = 0 \<rparr> \<and>
   open_reader ((default_flags (4::real))\<lparr>inputType := 2\<rparr>) (tcp_env '':80'' (Listener None)) = Inl NilDereference \<and>
   main recorder ((default_flags (4::real))\<lparr>inputType := 2\<rparr>) (tcp_env '':80'' (Listener None))
     = Some \<lparr> status = GoPanic,
              generator = Some [CallNew (New_call ((default_flags 4)\<lparr>inputType := 2\<rparr>))],
              reads_done = 0 \<rparr>"
proof -
  let ?fl = "(default_flags (4::real))\<lparr>inputType := 2\<rparr>"
  have i: "inputType ?fl = 2" and p: "localPort ?fl = 2002"
    by (simp_all add: default_flags_def)
  have s: "\<not> startup_rejects ?fl"
    by (simp add: startup_rejects_def default_flags_def)
  have l: "\<not> configureLogger_exits ?fl (tcp_env '':2002'' (Listener None))"
    and l': "\<not> configureLogger_exits ?fl (tcp_env '':80'' (Listener None))"
    by (simp_all add: configureLogger_exits_def default_flags_def)
  have n: "net_Listen (tcp_env '':2002'' (Listener None)) (CHR '':'' # Itoa (localPort ?fl)) = Some (Listener None)"
    and n': "net_Listen (tcp_env '':80'' (Listener None)) (CHR '':'' # Itoa (localPort ?fl)) = None"
    by (simp_all add: p Itoa_2002 tcp_env_def)
  show ?thesis
    using listen_and_accept_errors_end_in_panic [OF i l s, of recorder]
      listen_and_accept_errors_end_in_panic [OF i l' s, of recorder] n n'
    by (simp add: recorder_def)
qed

section \<open>Every slice read is passed on\<close>

text \<open>A read that stops the loop carries no byte, when bytes never come with a failure.\<close>

lemma stopping_read_is_empty:
  "bufio_Read r \<Longrightarrow> \<not> is_processed r \<Longrightarrow> fst r = []"
  by (auto simp: bufio_Read_def is_processed_def detected_EOF_def)

text \<open>
  Claim C9: every slice of length \<open>n > 0\<close> returned by a read of the input is passed to the
  pipeline exactly once and in arrival order, a slice returned together with end-of-stream
  included, and the shutdown is triggered only by a read of zero bytes with end-of-stream,
  so that no byte read is dropped at the end of the stream. A read with a \<open>nil\<close> error, or
  with end-of-stream and \<open>n > 0\<close>, is passed on. When a read of zero bytes with
  end-of-stream follows reads that were passed on, the generator at exit is \<open>Close\<close> applied
  to the generator that got \<open>AddData\<close> with each slice in turn. On every input the reader
  can deliver, a run that ends has stopped at a read that carries no byte, after passing on
  the slice of every read before it, once each and in order, and \<open>Close\<close> is applied only
  when that read is the end of the stream. A run that exits with code 0 has stopped at a
  read of zero bytes with end-of-stream.
\<close>

theorem every_slice_read_is_passed_on:
  "is_processed r = (snd r = None \<or> (snd r = Some EOF \<and> fst r \<noteq> [])) \<and>
   (list_all is_processed pre \<and> detected_EOF r' \<longrightarrow>
      ingest_loop P mg k (pre @ r' # post)
        = Some \<lparr> status = OsExit 0,
                 generator = Some (mg_Close P (foldl (mg_AddData P) mg (map fst pre))),
                 reads_done = Suc (k + length pre) \<rparr>) \<and>
   (list_all bufio_Read rs \<and> ingest_loop P mg k rs = Some out \<longrightarrow>
      (\<exists>pre r' post. rs = pre @ r' # post \<and> list_all is_processed pre \<and> fst r' = [] \<and>
         reads_done out = Suc (k + length pre) \<and>
         ((detected_EOF r' \<and> status out = OsExit 0 \<and>
             generator out = Some (mg_Close P (foldl (mg_AddData P) mg (map fst pre)))) \<or>
          (read_failed r' \<and> status out = OsExit 1 \<and>
             generator out = Some (foldl (mg_AddData P) mg (map fst pre)))))) \<and>
   (ingest_loop P mg k rs = Some out \<and> status out = OsExit 0 \<longrightarrow>
      (\<exists>pre r' post. rs = pre @ r' # post \<and> list_all is_processed pre \<and> detected_EOF r' \<and>
         generator out = Some (mg_Close P (foldl (mg_AddData P) mg (map fst pre)))))"
proof (intro conjI impI)
  show "is_processed r = (snd r = None \<or> (snd r = Some EOF \<and> fst r \<noteq> []))"
    by (rule is_processed_iff)
next
  assume "list_all is_processed pre \<and> detected_EOF r'"
  then show "ingest_loop P mg k (pre @ r' # post)
        = Some \<lparr> status = OsExit 0,
                 generator = Some (mg_Close P (foldl (mg_AddData P) mg (map fst pre))),
                 reads_done = Suc (k + length pre) \<rparr>"
    by (simp add: ingest_loop_stop)
next
  assume h: "list_all bufio_Read rs \<and> ingest_loop P mg k rs = Some out"
  then have all: "list_all bufio_Read rs" and run: "ingest_loop P mg k rs = Some out"
    by simp_all
  from ingest_loop_SomeD [OF run] obtain pre x post where
    d: "rs = pre @ x # post" and p: "list_all is_processed pre" and x: "\<not> is_processed x"
    by blast
  from all d have bx: "bufio_Read x" by simp
  from bx x have e: "fst x = []" by (rule stopping_read_is_empty)
  from run d have out: "out = (if detected_EOF x then
        \<lparr> status = OsExit 0,
          generator = Some (mg_Close P (foldl (mg_AddData P) mg (map fst pre))),
          reads_done = Suc (k + length pre) \<rparr>
      else \<lparr> status = OsExit 1,
          generator = Some (foldl (mg_AddData P) mg (map fst pre)),
          reads_done = Suc (k + length pre) \<rparr>)"
    using x by (simp add: ingest_loop_stop [OF p] is_processed_def split: if_splits)
  from x have "detected_EOF x \<or> read_failed x" by (simp add: is_processed_def)
  with out have "reads_done out = Suc (k + length pre) \<and>
         ((detected_EOF x \<and> status out = OsExit 0 \<and>
             generator out = Some (mg_Close P (foldl (mg_AddData P) mg (map fst pre)))) \<or>
          (read_failed x \<and> status out = OsExit 1 \<and>
             generator out = Some (foldl (mg_AddData P) mg (map fst pre))))"
    by auto
  with d p e show "\<exists>pre r' post. rs = pre @ r' # post \<and> list_all is_processed pre \<and> fst r' = [] \<and>
         reads_done out = Suc (k + length pre) \<and>
         ((detected_EOF r' \<and> status out = OsExit 0 \<and>
             generator out = Some (mg_Close P (foldl (mg_AddData P) mg (map fst pre)))) \<or>
          (read_failed r' \<and> status out = OsExit 1 \<and>
             generator out = Some (foldl (mg_AddData P) mg (map fst pre))))"
    by blast
next
  assume h: "ingest_loop P mg k rs = Some out \<and> status out = OsExit 0"
  then have run: "ingest_loop P mg k rs = Some out" and ok: "status out = OsExit 0"
    by simp_all
  from ingest_loop_SomeD [OF run] obtain pre x post where
    d: "rs = pre @ x # post" and p: "list_all is_processed pre" and x: "\<not> is_processed x"
    by blast
  have eof: "detected_EOF x"
  proof (rule ccontr)
    assume n: "\<not> detected_EOF x"
    with x have "read_failed x" by (simp add: is_processed_def)
    with n run d have "out = \<lparr> status = OsExit 1,
               generator = Some (foldl (mg_AddData P) mg (map fst pre)),
               reads_done = Suc (k + length pre) \<rparr>"
      by (simp add: ingest_loop_stop [OF p])
    with ok show False by simp
  qed
  with run d have "out = \<lparr> status = OsExit 0,
               generator = Some (mg_Close P (foldl (mg_AddData P) mg (map fst pre))),
               reads_done = Suc (k + length pre) \<rparr>"
    by (simp add: ingest_loop_stop [OF p])
  then have "generator out = Some (mg_Close P (foldl (mg_AddData P) mg (map fst pre)))"
    by simp
  with d p eof show "\<exists>pre r' post. rs = pre @ r' # post \<and> list_all is_processed pre \<and> detected_EOF r' \<and>
         generator out = Some (mg_Close P (foldl (mg_AddData P) mg (map fst pre)))"
    by blast
qed

theorem every_slice_read_is_passed_on_witness:
  "is_processed ([3], Some EOF) \<and>
   list_all is_processed [([1, 2], None), ([3], Some EOF)] \<and> detected_EOF ([], Some EOF) \<and>
   list_all bufio_Read [([1, 2], None), ([3], Some EOF), ([], Some EOF)] \<and>
   ingest_loop recorder [CallNew (New_call (default_flags (4::real)))] 0
       [([1, 2], None), ([3], Some EOF), ([], Some EOF)]
     = Some \<lparr> status = OsExit 0,
              generator = Some [CallNew (New_call (default_flags 4)), CallAddData [1, 2], CallAddData [3], CallClose],
              reads_done = 3 \<rparr> \<and>
   (\<exists>pre r' post. [([1, 2], None), ([3], Some EOF), ([], Some EOF)] = pre @ r' # post \<and>
       list_all is_processed pre \<and> fst r' = [] \<and> detected_EOF r' \<and>
       Some [CallNew (New_call (default_flags (4::real))), CallAddData [1, 2], CallAddData [3], CallClose]
         = Some (mg_Close recorder (foldl (mg_AddData recorder) [CallNew (New_call (default_flags 4))] (map fst pre))))"
proof -
  let ?rs = "[([1, 2], None), ([3], Some EOF), ([], Some EOF)] :: read_result list"
  let ?c = "[CallNew (New_call (default_flags (4::real)))]"
  let ?calls = "[CallNew (New_call (default_flags (4::real))), CallAddData [1, 2], CallAddData [3], CallClose]"
  let ?out = "\<lparr> status = OsExit 0, generator = Some ?calls, reads_done = 3 \<rparr>"
  note t = every_slice_read_is_passed_on
      [of "([3], Some EOF)" "[([1, 2], None), ([3], Some EOF)]" "([], Some EOF)" recorder ?c 0 "[]" ?rs ?out]
  have a: "list_all is_processed [([1, 2], None), ([3], Some EOF) :: read_result]"
    by (simp add: is_processed_def detected_EOF_def read_failed_def)
  have b: "detected_EOF ([], Some EOF)"
    by (simp add: detected_EOF_def)
  have c: "list_all bufio_Read ?rs"
    by (simp add: bufio_Read_def readBufferSize_def read_failed_def)
  from t have t1: "is_processed ([3], Some EOF)" by simp
  from t a b have "ingest_loop recorder ?c 0 ([([1, 2], None), ([3], Some EOF)] @ ([], Some EOF) # [])
     = Some \<lparr> status = OsExit 0,
              generator = Some (mg_Close recorder (foldl (mg_AddData recorder) ?c
                 (map fst [([1, 2], None), ([3], Some EOF)]))),
              reads_done = Suc (0 + length [([1, 2], None), ([3], Some EOF) :: read_result]) \<rparr>"
    by blast
  then have t2: "ingest_loop recorder ?c 0 ?rs = Some ?out"
    by (simp add: recorder_def)
  have s: "status ?out = OsExit 0" by simp
  from t c t2 have t3: "\<exists>pre r' post. ?rs = pre @ r' # post \<and> list_all is_processed pre \<and> fst r' = [] \<and>
         reads_done ?out = Suc (0 + length pre) \<and>
         ((detected_EOF r' \<and> status ?out = OsExit 0 \<and>
             generator ?out = Some (mg_Close recorder (foldl (mg_AddData recorder) ?c (map fst pre)))) \<or>
          (read_failed r' \<and> status ?out = OsExit 1 \<and>
             generator ?out = Some (foldl (mg_AddData recorder) ?c (map fst pre))))"
    by blast
  then obtain pre r' post where
    u: "?rs = pre @ r' # post" "list_all is_processed pre" "fst r' = []"
    and v: "(detected_EOF r' \<and> status ?out = OsExit 0 \<and>
             generator ?out = Some (mg_Close recorder (foldl (mg_AddData recorder) ?c (map fst pre)))) \<or>
          (read_failed r' \<and> status ?out = OsExit 1 \<and>
             generator ?out = Some (foldl (mg_AddData recorder) ?c (map fst pre)))"
    by blast
  from v have w: "detected_EOF r' \<and>
      Some ?calls = Some (mg_Close recorder (foldl (mg_AddData recorder) ?c (map fst pre)))"
    by auto
  with u have t4: "\<exists>pre r' post. ?rs = pre @ r' # post \<and>
       list_all is_processed pre \<and> fst r' = [] \<and> detected_EOF r' \<and>
       Some ?calls = Some (mg_Close recorder (foldl (mg_AddData recorder) ?c (map fst pre)))"
    by blast
  from t1 a b c t2 t4 show ?thesis by blast
qed

end
